theory Spec2Isabelle
  imports Complex_Main "HOL-Library.Sublist"
begin

section \<open>Data model\<close>

text \<open>
  The dashboard script \<^verbatim>\<open>app.py\<close> builds one table of municipalities. A row of the
  pandas frame is a record; the frame is the list of its rows in index order. Python
  floats are modelled as real numbers: rounding is not part of the model.
\<close>

datatype regiao_t = Norte | Nordeste | Sudeste | Sul | Centro_Oeste

record linha =
  codigo_ibge :: int
  municipio :: string
  populacao_total :: int
  populacao_60_mais :: int
  pib_per_capita :: real
  idh :: real
  regiao :: regiao_t
  densidade_demografica :: real
  percentual_idosos :: real
  internacoes_por_1000 :: real
  procedimentos_por_1000 :: real
  gasto_internacao_per_capita :: real
  procedimentos_alta_complexidade :: real

section \<open>The random number generator of numpy\<close>

text \<open>
  \<^verbatim>\<open>np.random\<close> is a library outside the repository. It is a parameter of the model:
  a state type and the sampling calls the script makes, each taking the global state
  and returning the drawn column with the state after the draw. \<^verbatim>\<open>seed\<close> replaces the
  global state by one that depends on the seed only.
\<close>

record 's np_random =
  seed :: "nat \<Rightarrow> 's"
  randint :: "int \<Rightarrow> int \<Rightarrow> nat \<Rightarrow> 's \<Rightarrow> int list \<times> 's"
  uniform :: "real \<Rightarrow> real \<Rightarrow> nat \<Rightarrow> 's \<Rightarrow> real list \<times> 's"
  choice_index :: "nat \<Rightarrow> nat \<Rightarrow> 's \<Rightarrow> nat list \<times> 's"
  standard_normal :: "nat \<Rightarrow> 's \<Rightarrow> real list \<times> 's"

text \<open>
  \<^verbatim>\<open>np.random.choice(a, n)\<close> draws \<open>n\<close> positions of \<open>a\<close> and returns the elements there;
  \<^verbatim>\<open>np.random.normal(loc, scale, n)\<close> is \<open>loc + scale * z\<close> for standard normal draws \<open>z\<close>.
\<close>

definition choice :: "'s np_random \<Rightarrow> 'a list \<Rightarrow> nat \<Rightarrow> 's \<Rightarrow> 'a list \<times> 's" where
  "choice G a n s = (case choice_index G (length a) n s of (js, s') \<Rightarrow> (map (\<lambda>j. a ! j) js, s'))"

definition normal :: "'s np_random \<Rightarrow> real \<Rightarrow> real \<Rightarrow> nat \<Rightarrow> 's \<Rightarrow> real list \<times> 's" where
  "normal G loc scale n s =
     (case standard_normal G n s of (zs, s') \<Rightarrow> (map (\<lambda>z. loc + scale * z) zs, s'))"

text \<open>
  What numpy documents of these calls: a draw of size \<open>n\<close> has \<open>n\<close> values,
  \<^verbatim>\<open>randint(low, high)\<close> lies in \<open>[low, high)\<close>, \<^verbatim>\<open>uniform(low, high)\<close> between its
  bounds, and \<^verbatim>\<open>choice\<close> picks positions of the list it is given.
\<close>

definition rng_ok :: "'s np_random \<Rightarrow> bool" where
  "rng_ok G \<longleftrightarrow>
     (\<forall>lo hi n s. lo < hi \<longrightarrow>
        length (fst (randint G lo hi n s)) = n \<and>
        (\<forall>x \<in> set (fst (randint G lo hi n s)). lo \<le> x \<and> x < hi)) \<and>
     (\<forall>lo hi n s. lo < hi \<longrightarrow>
        length (fst (uniform G lo hi n s)) = n \<and>
        (\<forall>x \<in> set (fst (uniform G lo hi n s)). lo \<le> x \<and> x \<le> hi)) \<and>
     (\<forall>k n s. 0 < k \<longrightarrow>
        length (fst (choice_index G k n s)) = n \<and>
        (\<forall>j \<in> set (fst (choice_index G k n s)). j < k)) \<and>
     (\<forall>n s. length (fst (standard_normal G n s)) = n)"

text \<open>
  A generator that meets the contract, for concrete runs. Its state counts the calls
  made since the seed; \<^verbatim>\<open>randint\<close> returns the lowest admissible value on an even
  count and the highest on an odd one.
\<close>

definition rng_edge :: "nat np_random" where
  "rng_edge =
     \<lparr> seed = (\<lambda>k. k),
       randint = (\<lambda>lo hi n s. (replicate n (if even s then lo else hi - 1), Suc s)),
       uniform = (\<lambda>lo hi n s. (replicate n lo, Suc s)),
       choice_index = (\<lambda>k n s. (replicate n 0, Suc s)),
       standard_normal = (\<lambda>n s. (replicate n (1 / 2), Suc s)) \<rparr>"

section \<open>The dataset generator\<close>

definition n_municipios :: nat where
  "n_municipios = 200"

text \<open>Python's \<^verbatim>\<open>str\<close> of a non-negative integer: its decimal digits.\<close>

fun str_nat :: "nat \<Rightarrow> string" where
  "str_nat n =
     (if n < 10 then [''0123456789'' ! n]
      else str_nat (n div 10) @ [''0123456789'' ! (n mod 10)])"

declare str_nat.simps [simp del]

text \<open>
  The column arithmetic of \<^verbatim>\<open>carregar_dados_completos\<close> at one index: \<open>tot\<close>, \<open>ido\<close>,
  \<open>pib\<close>, \<open>idh_v\<close>, \<open>reg\<close>, \<open>den\<close> are the drawn base values and \<open>e1\<close>, \<open>e2\<close>, \<open>e3\<close> the three
  noise values of the row. pandas computes each derived column from the columns before
  it, element by element. The name is the text \<^verbatim>\<open>Munic\<close>, i with an acute accent
  (two bytes in UTF-8), \<^verbatim>\<open>pio\<close>, a space and the number of the row counted from 1.
\<close>

definition linha_de ::
  "nat \<Rightarrow> int \<Rightarrow> int \<Rightarrow> real \<Rightarrow> real \<Rightarrow> regiao_t \<Rightarrow> real \<Rightarrow> real \<Rightarrow> real \<Rightarrow> real \<Rightarrow> linha" where
  "linha_de i tot ido pib idh_v reg den e1 e2 e3 =
     (let pct = (real_of_int ido / real_of_int tot) * 100;
          inter = pct * 2 + e1 + pib / 1000;
          proc = pib / 200 + e2 + pct * (3 / 2);
          gasto = inter * 50 + e3;
          alta = pib / 300 + pct * 2
      in \<lparr> codigo_ibge = 100000 + int i,
           municipio = ''Munic'' @ [CHR 0xC3, CHR 0xAD] @ ''pio '' @ str_nat (i + 1),
           populacao_total = tot,
           populacao_60_mais = ido,
           pib_per_capita = pib,
           idh = idh_v,
           regiao = reg,
           densidade_demografica = den,
           percentual_idosos = pct,
           internacoes_por_1000 = inter,
           procedimentos_por_1000 = proc,
           gasto_internacao_per_capita = gasto,
           procedimentos_alta_complexidade = alta \<rparr>)"

text \<open>
  \<^verbatim>\<open>carregar_dados_completos\<close>: seed 42, then the draws in the order in which Python
  evaluates them (the dictionary of the frame from top to bottom, then the three noise
  columns), and the frame of \<open>n_municipios\<close> rows. The global state before the call is
  \<open>s0\<close>; the function returns the frame and the global state it leaves. The columns
  drawn have \<open>n_municipios\<close> entries each under \<open>rng_ok\<close>, which is where the
  indexing below is in range.
\<close>

definition carregar_dados_completos :: "'s np_random \<Rightarrow> 's \<Rightarrow> linha list \<times> 's" where
  "carregar_dados_completos G s0 =
     (let s1 = seed G 42;
          n = n_municipios;
          (tot, s2) = randint G 10000 800000 n s1;
          (ido, s3) = randint G 1000 150000 n s2;
          (pib, s4) = uniform G 8000 45000 n s3;
          (idh_c, s5) = uniform G (1 / 2) (9 / 10) n s4;
          (reg, s6) = choice G [Norte, Nordeste, Sudeste, Sul, Centro_Oeste] n s5;
          (den, s7) = uniform G 10 500 n s6;
          (e1, s8) = normal G 0 10 n s7;
          (e2, s9) = normal G 0 20 n s8;
          (e3, s10) = normal G 0 100 n s9
      in (map (\<lambda>i. linha_de i (tot ! i) (ido ! i) (pib ! i) (idh_c ! i) (reg ! i) (den ! i)
                       (e1 ! i) (e2 ! i) (e3 ! i)) [0..<n],
          s10))"

section \<open>The filter stage\<close>

text \<open>
  The sidebar gives a list of regions and two pairs of bounds. The script builds five
  boolean columns, joins them with \<^verbatim>\<open>&\<close> and indexes the frame with the result:
  \<^verbatim>\<open>df[mask]\<close> keeps the rows whose mask entry is true, in the order of the frame.
\<close>

definition isin :: "'a list \<Rightarrow> 'a list \<Rightarrow> bool list" where
  "isin col vals = map (\<lambda>v. v \<in> set vals) col"

definition ge_col :: "real list \<Rightarrow> real \<Rightarrow> bool list" where
  "ge_col col b = map (\<lambda>v. b \<le> v) col"

definition le_col :: "real list \<Rightarrow> real \<Rightarrow> bool list" where
  "le_col col b = map (\<lambda>v. v \<le> b) col"

definition mask_and :: "bool list \<Rightarrow> bool list \<Rightarrow> bool list" where
  "mask_and a b = map (\<lambda>(p, q). p \<and> q) (zip a b)"

definition boolean_index :: "'a list \<Rightarrow> bool list \<Rightarrow> 'a list" where
  "boolean_index df flags = map fst (filter snd (zip df flags))"

definition df_filtrado ::
  "linha list \<Rightarrow> regiao_t list \<Rightarrow> real \<times> real \<Rightarrow> real \<times> real \<Rightarrow> linha list" where
  "df_filtrado df regioes faixa_idosos faixa_pib =
     boolean_index df
       (mask_and (mask_and (mask_and (mask_and
          (isin (map regiao df) regioes)
          (ge_col (map percentual_idosos df) (fst faixa_idosos)))
          (le_col (map percentual_idosos df) (snd faixa_idosos)))
          (ge_col (map pib_per_capita df) (fst faixa_pib)))
          (le_col (map pib_per_capita df) (snd faixa_pib)))"

section \<open>Metrics\<close>

text \<open>
  A statistic of pandas is a float that may be NaN or an infinity. Finite values are
  real numbers here; the two zeros of IEEE arithmetic are not told apart (a zero
  divisor counts as \<open>+0.0\<close>).
\<close>

datatype np_float = Val real | NaN | PInf | NInf

fun is_finite :: "np_float \<Rightarrow> bool" where
  "is_finite (Val v) = True"
| "is_finite NaN = False"
| "is_finite PInf = False"
| "is_finite NInf = False"

text \<open>Comparisons: every comparison with NaN is false.\<close>

fun gt_f :: "np_float \<Rightarrow> real \<Rightarrow> bool" where
  "gt_f (Val v) b = (b < v)"
| "gt_f NaN b = False"
| "gt_f PInf b = True"
| "gt_f NInf b = False"

fun ge_lim :: "real \<Rightarrow> np_float \<Rightarrow> bool" where
  "ge_lim x (Val v) = (v \<le> x)"
| "ge_lim x NaN = False"
| "ge_lim x PInf = False"
| "ge_lim x NInf = True"

fun le_lim :: "real \<Rightarrow> np_float \<Rightarrow> bool" where
  "le_lim x (Val v) = (x \<le> v)"
| "le_lim x NaN = False"
| "le_lim x PInf = True"
| "le_lim x NInf = False"

text \<open>
  Division of two numpy floats: a zero divisor gives an infinity or NaN (with a
  warning), never an exception.
\<close>

fun truediv :: "np_float \<Rightarrow> np_float \<Rightarrow> np_float" where
  "truediv NaN b = NaN"
| "truediv a NaN = NaN"
| "truediv (Val a) (Val b) =
     (if b = 0 then (if a = 0 then NaN else if 0 < a then PInf else NInf) else Val (a / b))"
| "truediv (Val a) PInf = Val 0"
| "truediv (Val a) NInf = Val 0"
| "truediv PInf (Val b) = (if 0 \<le> b then PInf else NInf)"
| "truediv NInf (Val b) = (if 0 \<le> b then NInf else PInf)"
| "truediv PInf PInf = NaN"
| "truediv PInf NInf = NaN"
| "truediv NInf PInf = NaN"
| "truediv NInf NInf = NaN"

text \<open>\<^verbatim>\<open>Series.mean()\<close>: NaN on an empty column.\<close>

definition mean :: "real list \<Rightarrow> np_float" where
  "mean xs = (if xs = [] then NaN else Val (sum_list xs / real (length xs)))"

text \<open>
  \<^verbatim>\<open>Series.corr(other)\<close>, Pearson's coefficient of two columns of one frame: NaN with
  fewer than two rows, and NaN (zero divided by zero) when a column has no variance.
\<close>

definition corr :: "real list \<Rightarrow> real list \<Rightarrow> np_float" where
  "corr xs ys =
     (if length xs < 2 then NaN
      else
        let mx = sum_list xs / real (length xs);
            my = sum_list ys / real (length ys);
            sxy = sum_list (map (\<lambda>(x, y). (x - mx) * (y - my)) (zip xs ys));
            sxx = sum_list (map (\<lambda>x. (x - mx) * (x - mx)) xs);
            syy = sum_list (map (\<lambda>y. (y - my) * (y - my)) ys)
        in if sxx = 0 \<or> syy = 0 then NaN else Val (sxy / (sqrt sxx * sqrt syy)))"

text \<open>
  \<^verbatim>\<open>Series.quantile(q)\<close> with the default linear interpolation: the position
  \<open>(n - 1) * q\<close> in the sorted column, interpolated between its two neighbours; NaN on
  an empty column. The script calls it with \<open>q = 0.75\<close> and \<open>q = 0.25\<close> only.
\<close>

definition quantile :: "real list \<Rightarrow> real \<Rightarrow> np_float" where
  "quantile xs q =
     (if xs = [] then NaN
      else
        let srt = sort xs;
            pos = real (length xs - 1) * q;
            lo = nat \<lfloor>pos\<rfloor>;
            hi = min (lo + 1) (length xs - 1);
            frac = pos - real lo
        in Val (srt ! lo + (srt ! hi - srt ! lo) * frac))"

subsection \<open>Size buckets\<close>

text \<open>
  \<^verbatim>\<open>pd.cut(x, bins, labels)\<close> with its defaults: the bins are the intervals between
  consecutive edges, open on the left and closed on the right; a value in no bin
  has no label (NaN). The last edge of the script is \<^verbatim>\<open>float('inf')\<close>.
\<close>

datatype bin_edge = Edge int | Inf_edge

fun above_edge :: "bin_edge \<Rightarrow> int \<Rightarrow> bool" where
  "above_edge (Edge e) x = (e < x)"
| "above_edge Inf_edge x = False"

fun upto_edge :: "int \<Rightarrow> bin_edge \<Rightarrow> bool" where
  "upto_edge x (Edge e) = (x \<le> e)"
| "upto_edge x Inf_edge = True"

fun cut :: "bin_edge list \<Rightarrow> 'l list \<Rightarrow> int \<Rightarrow> 'l option" where
  "cut (lo # hi # bins) (l # labels) x =
     (if above_edge lo x \<and> upto_edge x hi then Some l else cut (hi # bins) labels x)"
| "cut bins labels x = None"

text \<open>
  The script stores the label in a new column \<^verbatim>\<open>porte\<close> of the filtered frame; the
  label of a row is a function of its \<^verbatim>\<open>populacao_total\<close>.
\<close>

datatype porte_t = Pequeno | Medio | Grande | Metropole

definition porte :: "int \<Rightarrow> porte_t option" where
  "porte x =
     cut [Edge 0, Edge 20000, Edge 100000, Edge 500000, Inf_edge]
         [Pequeno, Medio, Grande, Metropole] x"

subsection \<open>Quartile cohorts\<close>

definition limite_alto :: "linha list \<Rightarrow> np_float" where
  "limite_alto df = quantile (map percentual_idosos df) (3 / 4)"

definition limite_baixo :: "linha list \<Rightarrow> np_float" where
  "limite_baixo df = quantile (map percentual_idosos df) (1 / 4)"

definition alto_idosos :: "linha list \<Rightarrow> linha list" where
  "alto_idosos df =
     boolean_index df (map (\<lambda>v. ge_lim v (limite_alto df)) (map percentual_idosos df))"

definition baixo_idosos :: "linha list \<Rightarrow> linha list" where
  "baixo_idosos df =
     boolean_index df (map (\<lambda>v. le_lim v (limite_baixo df)) (map percentual_idosos df))"

text \<open>The two ratios of cohort means that the findings box prints.\<close>

definition razao_internacoes :: "linha list \<Rightarrow> np_float" where
  "razao_internacoes df =
     truediv (mean (map internacoes_por_1000 (alto_idosos df)))
             (mean (map internacoes_por_1000 (baixo_idosos df)))"

definition razao_gastos :: "linha list \<Rightarrow> np_float" where
  "razao_gastos df =
     truediv (mean (map gasto_internacao_per_capita (alto_idosos df)))
             (mean (map gasto_internacao_per_capita (baixo_idosos df)))"

section \<open>The findings box\<close>

text \<open>
  The \<^verbatim>\<open>st.info\<close> box of the third dashboard interpolates three correlations and the
  two ratios, each through a fixed-point format, and picks two sentences by comparing
  a correlation with literals. The record holds the numbers handed to the format and
  the sentences picked; there is no other branch in the script.
\<close>

datatype achado_pnahp = Forte_influencia_positiva | Moderada_influencia | Fraca_influencia

datatype achado_pnaes = Mais_ricos_tem_mais_acesso | Pouca_relacao_com_riqueza

definition texto_pnahp :: "np_float \<Rightarrow> achado_pnahp" where
  "texto_pnahp c =
     (if gt_f c (1 / 2) then Forte_influencia_positiva
      else if gt_f c (3 / 10) then Moderada_influencia
      else Fraca_influencia)"

definition texto_pnaes :: "np_float \<Rightarrow> achado_pnaes" where
  "texto_pnaes c =
     (if gt_f c (3 / 10) then Mais_ricos_tem_mais_acesso else Pouca_relacao_com_riqueza)"

record achados =
  correl_idosos_intern :: np_float
  frase_pnahp :: achado_pnahp
  correl_pib_proced :: np_float
  frase_pnaes :: achado_pnaes
  correl_idosos_complexo :: np_float
  vezes_internacoes :: np_float
  vezes_gastos :: np_float

definition principais_achados :: "linha list \<Rightarrow> achados" where
  "principais_achados df =
     (let c1 = corr (map percentual_idosos df) (map internacoes_por_1000 df);
          c2 = corr (map pib_per_capita df) (map procedimentos_por_1000 df);
          c3 = corr (map percentual_idosos df) (map procedimentos_alta_complexidade df)
      in \<lparr> correl_idosos_intern = c1,
           frase_pnahp = texto_pnahp c1,
           correl_pib_proced = c2,
           frase_pnaes = texto_pnaes c2,
           correl_idosos_complexo = c3,
           vezes_internacoes = razao_internacoes df,
           vezes_gastos = razao_gastos df \<rparr>)"

section \<open>Rows for concrete runs\<close>

text \<open>
  A row as the generator computes it from the populations \<open>tot\<close> and \<open>ido\<close>, with a
  GDP per capita of 20000, an HDI of 0.7, the region Sudeste, a density of 100 and the
  noise values \<open>e1\<close>, \<open>e2\<close>, \<open>e3\<close>.
\<close>

definition exemplo :: "nat \<Rightarrow> int \<Rightarrow> int \<Rightarrow> real \<Rightarrow> real \<Rightarrow> real \<Rightarrow> linha" where
  "exemplo i tot ido e1 e2 e3 = linha_de i tot ido 20000 (7 / 10) Sudeste 100 e1 e2 e3"

section \<open>Facts about the generator\<close>

lemma rng_edge_ok: "rng_ok rng_edge"
  by (auto simp: rng_ok_def rng_edge_def)

text \<open>
  The value of \<^verbatim>\<open>carregar_dados_completos\<close> once the nine draws are named, in the
  order in which they are made.
\<close>

lemma carregar_unfold:
  assumes "randint G 10000 800000 n_municipios (seed G 42) = (tot, s2)"
    and "randint G 1000 150000 n_municipios s2 = (ido, s3)"
    and "uniform G 8000 45000 n_municipios s3 = (pib, s4)"
    and "uniform G (1 / 2) (9 / 10) n_municipios s4 = (idh_c, s5)"
    and "choice G [Norte, Nordeste, Sudeste, Sul, Centro_Oeste] n_municipios s5 = (reg, s6)"
    and "uniform G 10 500 n_municipios s6 = (den, s7)"
    and "normal G 0 10 n_municipios s7 = (e1, s8)"
    and "normal G 0 20 n_municipios s8 = (e2, s9)"
    and "normal G 0 100 n_municipios s9 = (e3, s10)"
  shows "carregar_dados_completos G s0 =
     (map (\<lambda>i. linha_de i (tot ! i) (ido ! i) (pib ! i) (idh_c ! i) (reg ! i) (den ! i)
                       (e1 ! i) (e2 ! i) (e3 ! i)) [0..<n_municipios], s10)"
  using assms by (simp add: carregar_dados_completos_def Let_def)

lemma randint_range:
  assumes "rng_ok G" "lo < hi" "randint G lo hi n s = (xs, s')" "i < n"
  shows "lo \<le> xs ! i \<and> xs ! i < hi"
proof -
  from assms have len: "length xs = n" and all: "\<forall>x \<in> set xs. lo \<le> x \<and> x < hi"
    unfolding rng_ok_def by (metis fst_conv)+
  from len \<open>i < n\<close> have "xs ! i \<in> set xs" by simp
  with all show ?thesis by blast
qed

lemma pct_bounds:
  fixes tot ido :: int
  assumes "10000 \<le> tot" "1000 \<le> ido" "ido < 150000"
  shows "0 < (real_of_int ido / real_of_int tot) * 100"
    and "(real_of_int ido / real_of_int tot) * 100 < 1500"
proof -
  from assms have t: "0 < real_of_int tot" and i: "0 < real_of_int ido" by simp_all
  then show "0 < (real_of_int ido / real_of_int tot) * 100" by simp
  from assms have "real_of_int ido * 100 < 1500 * real_of_int tot" by simp
  with t show "(real_of_int ido / real_of_int tot) * 100 < 1500"
    by (simp add: pos_divide_less_eq)
qed

text \<open>The run of the generator on \<open>rng_edge\<close>: the same row shape at every index.\<close>

lemma carregar_edge:
  "carregar_dados_completos rng_edge s0 =
     (map (\<lambda>i. linha_de i 10000 149999 8000 (1 / 2) Norte 10 5 10 50) [0..<n_municipios], 51)"
  by (simp add: carregar_dados_completos_def Let_def rng_edge_def normal_def choice_def)

lemma carregar_edge_nth:
  "i < n_municipios \<Longrightarrow>
   fst (carregar_dados_completos rng_edge s0) ! i = linha_de i 10000 149999 8000 (1 / 2) Norte 10 5 10 50"
  by (simp add: carregar_edge)

lemma carregar_edge_length: "length (fst (carregar_dados_completos rng_edge s0)) = n_municipios"
  by (simp add: carregar_edge)

subsection \<open>C1: population ranges of a generated record\<close>

text \<open>
  C1 as stated fails. \<^verbatim>\<open>populacao_total\<close> and \<^verbatim>\<open>populacao_60_mais\<close> are two
  independent \<^verbatim>\<open>randint\<close> draws, from \<open>[10000, 800000)\<close> and \<open>[1000, 150000)\<close>, and
  nothing in the script relates them. On a generator that meets numpy's range
  contract and returns 10000 for the first draw and 149999 for the second, the first
  record has more elderly residents than residents, and a percentage above 100.
\<close>

theorem elderly_exceeds_total_counterexample:
  "rng_ok rng_edge \<and>
   fst (carregar_dados_completos rng_edge 0) ! 0 \<in> set (fst (carregar_dados_completos rng_edge 0)) \<and>
   populacao_total (fst (carregar_dados_completos rng_edge 0) ! 0) = 10000 \<and>
   populacao_60_mais (fst (carregar_dados_completos rng_edge 0) ! 0) = 149999 \<and>
   \<not> populacao_60_mais (fst (carregar_dados_completos rng_edge 0) ! 0)
       \<le> populacao_total (fst (carregar_dados_completos rng_edge 0) ! 0) \<and>
   \<not> percentual_idosos (fst (carregar_dados_completos rng_edge 0) ! 0) \<le> 100"
proof -
  have n: "0 < n_municipios" by (simp add: n_municipios_def)
  have "fst (carregar_dados_completos rng_edge 0) ! 0 \<in> set (fst (carregar_dados_completos rng_edge 0))"
    by (rule nth_mem) (simp add: carregar_edge_length n)
  then show ?thesis
    using rng_edge_ok by (simp add: carregar_edge_nth [OF n] linha_de_def Let_def)
qed

text \<open>
  C1, amended: every record of the generated frame has
  \<open>10000 \<le> populacao_total < 800000\<close> and \<open>1000 \<le> populacao_60_mais < 150000\<close>, its
  \<^verbatim>\<open>percentual_idosos\<close> is \<open>populacao_60_mais / populacao_total * 100\<close>, and so
  \<open>0 < percentual_idosos < 1500\<close>.
\<close>

theorem generator_population_ranges:
  assumes ok: "rng_ok G" and r: "r \<in> set (fst (carregar_dados_completos G s0))"
  shows "10000 \<le> populacao_total r \<and> populacao_total r < 800000 \<and>
         1000 \<le> populacao_60_mais r \<and> populacao_60_mais r < 150000 \<and>
         percentual_idosos r =
           (real_of_int (populacao_60_mais r) / real_of_int (populacao_total r)) * 100 \<and>
         0 < percentual_idosos r \<and> percentual_idosos r < 1500"
proof -
  obtain tot s2 where a1: "randint G 10000 800000 n_municipios (seed G 42) = (tot, s2)" by fastforce
  obtain ido s3 where a2: "randint G 1000 150000 n_municipios s2 = (ido, s3)" by fastforce
  obtain pib s4 where a3: "uniform G 8000 45000 n_municipios s3 = (pib, s4)" by fastforce
  obtain idh_c s5 where a4: "uniform G (1 / 2) (9 / 10) n_municipios s4 = (idh_c, s5)" by fastforce
  obtain reg s6 where a5: "choice G [Norte, Nordeste, Sudeste, Sul, Centro_Oeste] n_municipios s5 = (reg, s6)" by fastforce
  obtain den s7 where a6: "uniform G 10 500 n_municipios s6 = (den, s7)" by fastforce
  obtain e1 s8 where a7: "normal G 0 10 n_municipios s7 = (e1, s8)" by fastforce
  obtain e2 s9 where a8: "normal G 0 20 n_municipios s8 = (e2, s9)" by fastforce
  obtain e3 s10 where a9: "normal G 0 100 n_municipios s9 = (e3, s10)" by fastforce
  note u = carregar_unfold [OF a1 a2 a3 a4 a5 a6 a7 a8 a9, of s0]
  from r obtain i where i: "i < n_municipios"
    and rr: "r = linha_de i (tot ! i) (ido ! i) (pib ! i) (idh_c ! i) (reg ! i) (den ! i)
                       (e1 ! i) (e2 ! i) (e3 ! i)"
    unfolding u by auto
  from randint_range [OF ok _ a1 i] have t: "10000 \<le> tot ! i" "tot ! i < 800000" by simp_all
  from randint_range [OF ok _ a2 i] have e: "1000 \<le> ido ! i" "ido ! i < 150000" by simp_all
  from pct_bounds [OF t(1) e] t e show ?thesis
    unfolding rr by (simp add: linha_de_def Let_def)
qed

theorem generator_population_ranges_witness:
  "rng_ok rng_edge \<and>
   fst (carregar_dados_completos rng_edge 0) ! 0 \<in> set (fst (carregar_dados_completos rng_edge 0)) \<and>
   populacao_total (fst (carregar_dados_completos rng_edge 0) ! 0) = 10000 \<and>
   populacao_60_mais (fst (carregar_dados_completos rng_edge 0) ! 0) = 149999 \<and>
   percentual_idosos (fst (carregar_dados_completos rng_edge 0) ! 0) = 149999 / 100 \<and>
   0 < percentual_idosos (fst (carregar_dados_completos rng_edge 0) ! 0) \<and>
   percentual_idosos (fst (carregar_dados_completos rng_edge 0) ! 0) < 1500"
proof -
  have n: "0 < n_municipios" by (simp add: n_municipios_def)
  have m: "fst (carregar_dados_completos rng_edge 0) ! 0 \<in> set (fst (carregar_dados_completos rng_edge 0))"
    by (rule nth_mem) (simp add: carregar_edge_length n)
  from generator_population_ranges [OF rng_edge_ok m] m rng_edge_ok show ?thesis
    by (simp add: carregar_edge_nth [OF n] linha_de_def Let_def)
qed

subsection \<open>C2: the formulas of the derived columns\<close>

text \<open>
  C2: in row \<open>i\<close> of the generated frame, \<^verbatim>\<open>percentual_idosos\<close> is
  \<open>100 * populacao_60_mais / populacao_total\<close>; \<^verbatim>\<open>internacoes_por_1000\<close> is
  \<open>2 * percentual_idosos + N(0,10) + pib_per_capita / 1000\<close>;
  \<^verbatim>\<open>procedimentos_por_1000\<close> is \<open>pib_per_capita / 200 + N(0,20) + 1.5 * percentual_idosos\<close>;
  \<^verbatim>\<open>gasto_internacao_per_capita\<close> is \<open>50 * internacoes_por_1000 + N(0,100)\<close>;
  \<^verbatim>\<open>procedimentos_alta_complexidade\<close> is \<open>pib_per_capita / 300 + 2 * percentual_idosos\<close>.
  The noise terms are entry \<open>i\<close> of the columns \<open>e1\<close>, \<open>e2\<close>, \<open>e3\<close> drawn by
  \<^verbatim>\<open>normal(0, 10)\<close>, \<^verbatim>\<open>normal(0, 20)\<close> and \<^verbatim>\<open>normal(0, 100)\<close>: standard normal draws
  scaled by 10, 20 and 100 around 0. The equalities are between real numbers.
\<close>

theorem derived_columns_formulas:
  assumes "randint G 10000 800000 n_municipios (seed G 42) = (tot, s2)"
    and "randint G 1000 150000 n_municipios s2 = (ido, s3)"
    and "uniform G 8000 45000 n_municipios s3 = (pib, s4)"
    and "uniform G (1 / 2) (9 / 10) n_municipios s4 = (idh_c, s5)"
    and "choice G [Norte, Nordeste, Sudeste, Sul, Centro_Oeste] n_municipios s5 = (reg, s6)"
    and "uniform G 10 500 n_municipios s6 = (den, s7)"
    and "normal G 0 10 n_municipios s7 = (e1, s8)"
    and "normal G 0 20 n_municipios s8 = (e2, s9)"
    and "normal G 0 100 n_municipios s9 = (e3, s10)"
    and "i < n_municipios"
    and "r = fst (carregar_dados_completos G s0) ! i"
  shows "percentual_idosos r =
           100 * real_of_int (populacao_60_mais r) / real_of_int (populacao_total r) \<and>
         internacoes_por_1000 r = 2 * percentual_idosos r + e1 ! i + pib_per_capita r / 1000 \<and>
         procedimentos_por_1000 r =
           pib_per_capita r / 200 + e2 ! i + (3 / 2) * percentual_idosos r \<and>
         gasto_internacao_per_capita r = 50 * internacoes_por_1000 r + e3 ! i \<and>
         procedimentos_alta_complexidade r = pib_per_capita r / 300 + 2 * percentual_idosos r \<and>
         e1 = map (\<lambda>z. 0 + 10 * z) (fst (standard_normal G n_municipios s7)) \<and>
         e2 = map (\<lambda>z. 0 + 20 * z) (fst (standard_normal G n_municipios s8)) \<and>
         e3 = map (\<lambda>z. 0 + 100 * z) (fst (standard_normal G n_municipios s9))"
proof -
  note u = carregar_unfold [OF assms(1-9), of s0]
  have rr: "r = linha_de i (tot ! i) (ido ! i) (pib ! i) (idh_c ! i) (reg ! i) (den ! i)
                       (e1 ! i) (e2 ! i) (e3 ! i)"
    using assms(10,11) by (simp add: u)
  have f: "percentual_idosos r =
           100 * real_of_int (populacao_60_mais r) / real_of_int (populacao_total r) \<and>
         internacoes_por_1000 r = 2 * percentual_idosos r + e1 ! i + pib_per_capita r / 1000 \<and>
         procedimentos_por_1000 r =
           pib_per_capita r / 200 + e2 ! i + (3 / 2) * percentual_idosos r \<and>
         gasto_internacao_per_capita r = 50 * internacoes_por_1000 r + e3 ! i \<and>
         procedimentos_alta_complexidade r = pib_per_capita r / 300 + 2 * percentual_idosos r"
    unfolding rr by (simp add: linha_de_def Let_def)
  have n1: "e1 = map (\<lambda>z. 0 + 10 * z) (fst (standard_normal G n_municipios s7))"
    using assms(7) by (auto simp: normal_def split: prod.splits)
  have n2: "e2 = map (\<lambda>z. 0 + 20 * z) (fst (standard_normal G n_municipios s8))"
    using assms(8) by (auto simp: normal_def split: prod.splits)
  have n3: "e3 = map (\<lambda>z. 0 + 100 * z) (fst (standard_normal G n_municipios s9))"
    using assms(9) by (auto simp: normal_def split: prod.splits)
  from f n1 n2 n3 show ?thesis by blast
qed

theorem derived_columns_formulas_witness:
  "percentual_idosos (fst (carregar_dados_completos rng_edge 0) ! 3) = 149999 / 100 \<and>
   internacoes_por_1000 (fst (carregar_dados_completos rng_edge 0) ! 3) = 2 * (149999 / 100) + 5 + 8 \<and>
   procedimentos_por_1000 (fst (carregar_dados_completos rng_edge 0) ! 3) = 40 + 10 + (3 / 2) * (149999 / 100) \<and>
   gasto_internacao_per_capita (fst (carregar_dados_completos rng_edge 0) ! 3) = 50 * (2 * (149999 / 100) + 5 + 8) + 50 \<and>
   procedimentos_alta_complexidade (fst (carregar_dados_completos rng_edge 0) ! 3) = 8000 / 300 + 2 * (149999 / 100)"
proof -
  have n: "3 < n_municipios" by (simp add: n_municipios_def)
  have "percentual_idosos (fst (carregar_dados_completos rng_edge 0) ! 3) =
           100 * real_of_int (populacao_60_mais (fst (carregar_dados_completos rng_edge 0) ! 3)) /
             real_of_int (populacao_total (fst (carregar_dados_completos rng_edge 0) ! 3)) \<and>
         internacoes_por_1000 (fst (carregar_dados_completos rng_edge 0) ! 3) =
           2 * percentual_idosos (fst (carregar_dados_completos rng_edge 0) ! 3) +
             replicate n_municipios 5 ! 3 + pib_per_capita (fst (carregar_dados_completos rng_edge 0) ! 3) / 1000 \<and>
         procedimentos_por_1000 (fst (carregar_dados_completos rng_edge 0) ! 3) =
           pib_per_capita (fst (carregar_dados_completos rng_edge 0) ! 3) / 200 + replicate n_municipios 10 ! 3 +
             (3 / 2) * percentual_idosos (fst (carregar_dados_completos rng_edge 0) ! 3) \<and>
         gasto_internacao_per_capita (fst (carregar_dados_completos rng_edge 0) ! 3) =
           50 * internacoes_por_1000 (fst (carregar_dados_completos rng_edge 0) ! 3) + replicate n_municipios 50 ! 3 \<and>
         procedimentos_alta_complexidade (fst (carregar_dados_completos rng_edge 0) ! 3) =
           pib_per_capita (fst (carregar_dados_completos rng_edge 0) ! 3) / 300 +
             2 * percentual_idosos (fst (carregar_dados_completos rng_edge 0) ! 3) \<and>
         replicate n_municipios 5 = map (\<lambda>z. 0 + 10 * z) (fst (standard_normal rng_edge n_municipios 48)) \<and>
         replicate n_municipios 10 = map (\<lambda>z. 0 + 20 * z) (fst (standard_normal rng_edge n_municipios 49)) \<and>
         replicate n_municipios 50 = map (\<lambda>z. 0 + 100 * z) (fst (standard_normal rng_edge n_municipios 50))"
    by (rule derived_columns_formulas [where G = rng_edge and ?s0.0 = 0 and i = 3
          and tot = "replicate n_municipios 10000" and ido = "replicate n_municipios 149999"
          and pib = "replicate n_municipios 8000" and idh_c = "replicate n_municipios (1 / 2)"
          and reg = "replicate n_municipios Norte" and den = "replicate n_municipios 10"
          and ?s2.0 = 43 and ?s3.0 = 44 and ?s4.0 = 45 and ?s5.0 = 46 and ?s6.0 = 47
          and ?s7.0 = 48 and ?s8.0 = 49 and ?s9.0 = 50 and ?s10.0 = 51])
       (simp_all add: rng_edge_def normal_def choice_def n)
  then show ?thesis
    using n by (simp add: carregar_edge_nth linha_de_def Let_def)
qed

subsection \<open>C3: determinism and the order of the draws\<close>

text \<open>
  C3: the generator sets the seed to 42 before drawing, so two runs started from any
  two global states \<open>sa\<close> and \<open>sb\<close> return the same frame of 200 rows (and leave the
  same state). The draws are made in the order \<^verbatim>\<open>populacao_total\<close>,
  \<^verbatim>\<open>populacao_60_mais\<close>, \<^verbatim>\<open>pib_per_capita\<close>, \<^verbatim>\<open>idh\<close>, \<^verbatim>\<open>regiao\<close>,
  \<^verbatim>\<open>densidade_demografica\<close>, then the noise of \<^verbatim>\<open>internacoes_por_1000\<close>,
  \<^verbatim>\<open>procedimentos_por_1000\<close> and \<^verbatim>\<open>gasto_internacao_per_capita\<close>: each draw starts
  from the state the one before it left.
\<close>

theorem generator_deterministic:
  assumes "randint G 10000 800000 n_municipios (seed G 42) = (tot, s2)"
    and "randint G 1000 150000 n_municipios s2 = (ido, s3)"
    and "uniform G 8000 45000 n_municipios s3 = (pib, s4)"
    and "uniform G (1 / 2) (9 / 10) n_municipios s4 = (idh_c, s5)"
    and "choice G [Norte, Nordeste, Sudeste, Sul, Centro_Oeste] n_municipios s5 = (reg, s6)"
    and "uniform G 10 500 n_municipios s6 = (den, s7)"
    and "normal G 0 10 n_municipios s7 = (e1, s8)"
    and "normal G 0 20 n_municipios s8 = (e2, s9)"
    and "normal G 0 100 n_municipios s9 = (e3, s10)"
  shows "carregar_dados_completos G sa = carregar_dados_completos G sb \<and>
         length (fst (carregar_dados_completos G sa)) = 200 \<and>
         carregar_dados_completos G sa =
           (map (\<lambda>i. linha_de i (tot ! i) (ido ! i) (pib ! i) (idh_c ! i) (reg ! i) (den ! i)
                       (e1 ! i) (e2 ! i) (e3 ! i)) [0..<n_municipios], s10)"
proof -
  have a: "carregar_dados_completos G sa = carregar_dados_completos G sb"
    by (simp add: carregar_dados_completos_def)
  have b: "carregar_dados_completos G sa =
           (map (\<lambda>i. linha_de i (tot ! i) (ido ! i) (pib ! i) (idh_c ! i) (reg ! i) (den ! i)
                       (e1 ! i) (e2 ! i) (e3 ! i)) [0..<n_municipios], s10)"
    by (rule carregar_unfold [OF assms])
  have c: "length (fst (carregar_dados_completos G sa)) = 200"
    by (simp add: b) (simp add: n_municipios_def)
  from a b c show ?thesis by blast
qed

theorem generator_deterministic_witness:
  "carregar_dados_completos rng_edge 0 = carregar_dados_completos rng_edge 7 \<and>
   length (fst (carregar_dados_completos rng_edge 0)) = 200 \<and>
   snd (carregar_dados_completos rng_edge 0) = 51"
proof -
  have "carregar_dados_completos rng_edge 0 = carregar_dados_completos rng_edge 7 \<and>
         length (fst (carregar_dados_completos rng_edge 0)) = 200 \<and>
         carregar_dados_completos rng_edge 0 =
           (map (\<lambda>i. linha_de i (replicate n_municipios 10000 ! i) (replicate n_municipios 149999 ! i)
              (replicate n_municipios 8000 ! i) (replicate n_municipios (1 / 2) ! i)
              (replicate n_municipios Norte ! i) (replicate n_municipios 10 ! i)
              (replicate n_municipios 5 ! i) (replicate n_municipios 10 ! i)
              (replicate n_municipios 50 ! i)) [0..<n_municipios], 51)"
    by (rule generator_deterministic [where G = rng_edge and sa = 0 and sb = 7
          and ?s2.0 = 43 and ?s3.0 = 44 and ?s4.0 = 45 and ?s5.0 = 46
          and ?s6.0 = 47 and ?s7.0 = 48 and ?s8.0 = 49 and ?s9.0 = 50 and ?s10.0 = 51])
       (simp_all add: rng_edge_def normal_def choice_def)
  then have a: "carregar_dados_completos rng_edge 0 = carregar_dados_completos rng_edge 7"
    and b: "length (fst (carregar_dados_completos rng_edge 0)) = 200"
    and c: "carregar_dados_completos rng_edge 0 =
           (map (\<lambda>i. linha_de i (replicate n_municipios 10000 ! i) (replicate n_municipios 149999 ! i)
              (replicate n_municipios 8000 ! i) (replicate n_municipios (1 / 2) ! i)
              (replicate n_municipios Norte ! i) (replicate n_municipios 10 ! i)
              (replicate n_municipios 5 ! i) (replicate n_municipios 10 ! i)
              (replicate n_municipios 50 ! i)) [0..<n_municipios], 51)"
    by (rule conjunct1, rule conjunct1 [OF conjunct2], rule conjunct2 [OF conjunct2])
  have d: "snd (carregar_dados_completos rng_edge 0) = 51"
    by (subst c) (rule snd_conv)
  from a b d show ?thesis by (intro conjI)
qed

section \<open>Facts about the filter stage\<close>

text \<open>Indexing with a mask computed row by row is filtering by the row predicate.\<close>

lemma boolean_index_map: "boolean_index df (map P df) = filter P df"
  by (induction df) (simp_all add: boolean_index_def)

lemma mask_and_map: "mask_and (map P xs) (map Q xs) = map (\<lambda>x. P x \<and> Q x) xs"
  by (induction xs) (simp_all add: mask_and_def)

lemma df_filtrado_filter:
  "df_filtrado df regioes faixa_idosos faixa_pib =
     filter (\<lambda>r. regiao r \<in> set regioes \<and>
                 fst faixa_idosos \<le> percentual_idosos r \<and>
                 percentual_idosos r \<le> snd faixa_idosos \<and>
                 fst faixa_pib \<le> pib_per_capita r \<and>
                 pib_per_capita r \<le> snd faixa_pib) df"
proof -
  have "df_filtrado df regioes faixa_idosos faixa_pib =
     boolean_index df (map (\<lambda>r. (((regiao r \<in> set regioes \<and>
                 fst faixa_idosos \<le> percentual_idosos r) \<and>
                 percentual_idosos r \<le> snd faixa_idosos) \<and>
                 fst faixa_pib \<le> pib_per_capita r) \<and>
                 pib_per_capita r \<le> snd faixa_pib) df)"
    by (simp add: df_filtrado_def isin_def ge_col_def le_col_def mask_and_map o_def)
  also have "\<dots> = filter (\<lambda>r. (((regiao r \<in> set regioes \<and>
                 fst faixa_idosos \<le> percentual_idosos r) \<and>
                 percentual_idosos r \<le> snd faixa_idosos) \<and>
                 fst faixa_pib \<le> pib_per_capita r) \<and>
                 pib_per_capita r \<le> snd faixa_pib) df"
    by (rule boolean_index_map)
  finally show ?thesis by (simp add: conj_assoc)
qed

text \<open>The fields of the rows used in concrete runs.\<close>

lemma pct_exemplo: "percentual_idosos (exemplo i tot ido e1 e2 e3) = real_of_int ido / real_of_int tot * 100"
  by (simp add: exemplo_def linha_de_def Let_def)

lemma inter_exemplo:
  "internacoes_por_1000 (exemplo i tot ido e1 e2 e3) = real_of_int ido / real_of_int tot * 100 * 2 + e1 + 20"
  by (simp add: exemplo_def linha_de_def Let_def)

lemma gasto_exemplo:
  "gasto_internacao_per_capita (exemplo i tot ido e1 e2 e3) =
     (real_of_int ido / real_of_int tot * 100 * 2 + e1 + 20) * 50 + e3"
  by (simp add: exemplo_def linha_de_def Let_def)

lemma regiao_exemplo: "regiao (exemplo i tot ido e1 e2 e3) = Sudeste"
  by (simp add: exemplo_def linha_de_def Let_def)

lemma pib_exemplo: "pib_per_capita (exemplo i tot ido e1 e2 e3) = 20000"
  by (simp add: exemplo_def linha_de_def Let_def)

subsection \<open>C4: the filter keeps exactly the matching rows, in order\<close>

text \<open>
  C4: for every frame, list of regions and pair of ranges, \<^verbatim>\<open>df_filtrado\<close> is the frame
  restricted to the rows whose region is in the list and whose \<^verbatim>\<open>percentual_idosos\<close>
  and \<^verbatim>\<open>pib_per_capita\<close> lie within their ranges, both bounds included; a row is in
  the result exactly when it is in the frame and meets all five conditions; and the
  result is a subsequence of the frame, so the order of the frame is kept.
\<close>

theorem filter_exact_ordered:
  "df_filtrado df regioes (lo_i, hi_i) (lo_p, hi_p) =
     filter (\<lambda>r. regiao r \<in> set regioes \<and>
                 lo_i \<le> percentual_idosos r \<and> percentual_idosos r \<le> hi_i \<and>
                 lo_p \<le> pib_per_capita r \<and> pib_per_capita r \<le> hi_p) df \<and>
   (\<forall>r. r \<in> set (df_filtrado df regioes (lo_i, hi_i) (lo_p, hi_p)) \<longleftrightarrow>
        r \<in> set df \<and> regiao r \<in> set regioes \<and>
        lo_i \<le> percentual_idosos r \<and> percentual_idosos r \<le> hi_i \<and>
        lo_p \<le> pib_per_capita r \<and> pib_per_capita r \<le> hi_p) \<and>
   subseq (df_filtrado df regioes (lo_i, hi_i) (lo_p, hi_p)) df"
  by (simp add: df_filtrado_filter)

theorem filter_exact_ordered_witness:
  "df_filtrado [exemplo 0 50000 10000 0 0 0, exemplo 1 50000 5000 0 0 0, exemplo 2 50000 12500 0 0 0]
     [Sudeste, Sul] (15, 25) (10000, 40000) =
     [exemplo 0 50000 10000 0 0 0, exemplo 2 50000 12500 0 0 0] \<and>
   subseq [exemplo 0 50000 10000 0 0 0, exemplo 2 50000 12500 0 0 0]
     [exemplo 0 50000 10000 0 0 0, exemplo 1 50000 5000 0 0 0, exemplo 2 50000 12500 0 0 0]"
proof -
  note t = filter_exact_ordered [of
      "[exemplo 0 50000 10000 0 0 0, exemplo 1 50000 5000 0 0 0, exemplo 2 50000 12500 0 0 0]"
      "[Sudeste, Sul]" 15 25 10000 40000]
  have e: "df_filtrado [exemplo 0 50000 10000 0 0 0, exemplo 1 50000 5000 0 0 0, exemplo 2 50000 12500 0 0 0]
     [Sudeste, Sul] (15, 25) (10000, 40000) =
     [exemplo 0 50000 10000 0 0 0, exemplo 2 50000 12500 0 0 0]"
    by (subst conjunct1 [OF t]) (simp add: pct_exemplo regiao_exemplo pib_exemplo)
  from t have "subseq (df_filtrado [exemplo 0 50000 10000 0 0 0, exemplo 1 50000 5000 0 0 0,
       exemplo 2 50000 12500 0 0 0] [Sudeste, Sul] (15, 25) (10000, 40000))
     [exemplo 0 50000 10000 0 0 0, exemplo 1 50000 5000 0 0 0, exemplo 2 50000 12500 0 0 0]"
    by (rule conjunct2 [OF conjunct2])
  then have "subseq [exemplo 0 50000 10000 0 0 0, exemplo 2 50000 12500 0 0 0]
     [exemplo 0 50000 10000 0 0 0, exemplo 1 50000 5000 0 0 0, exemplo 2 50000 12500 0 0 0]"
    by (simp only: e)
  with e show ?thesis by (intro conjI)
qed

subsection \<open>C8: filtering twice is filtering once\<close>

text \<open>
  C8: applying the filter stage with the same regions and ranges to its own result
  returns that result, the same rows in the same order.
\<close>

theorem filter_idempotent:
  "df_filtrado (df_filtrado df regioes faixa_idosos faixa_pib) regioes faixa_idosos faixa_pib =
     df_filtrado df regioes faixa_idosos faixa_pib"
  by (simp add: df_filtrado_filter)

theorem filter_idempotent_witness:
  "df_filtrado
     (df_filtrado [exemplo 0 50000 10000 0 0 0, exemplo 1 50000 5000 0 0 0, exemplo 2 50000 12500 0 0 0]
        [Sudeste, Sul] (15, 25) (10000, 40000))
     [Sudeste, Sul] (15, 25) (10000, 40000) =
   [exemplo 0 50000 10000 0 0 0, exemplo 2 50000 12500 0 0 0]"
proof -
  have e: "df_filtrado [exemplo 0 50000 10000 0 0 0, exemplo 1 50000 5000 0 0 0, exemplo 2 50000 12500 0 0 0]
     [Sudeste, Sul] (15, 25) (10000, 40000) =
     [exemplo 0 50000 10000 0 0 0, exemplo 2 50000 12500 0 0 0]"
    by (simp add: df_filtrado_filter pct_exemplo regiao_exemplo pib_exemplo)
  show ?thesis
    by (subst filter_idempotent) (rule e)
qed

section \<open>Facts about the size buckets\<close>

lemma porte_cases:
  "porte x =
     (if x \<le> 0 then None
      else if x \<le> 20000 then Some Pequeno
      else if x \<le> 100000 then Some Medio
      else if x \<le> 500000 then Some Grande
      else Some Metropole)"
  by (simp add: porte_def)

subsection \<open>C6: every positive population has exactly one bucket\<close>

text \<open>
  C6: for every \<^verbatim>\<open>populacao_total\<close> above 0 there is exactly one bucket, Pequeno up to
  20000, Medio above 20000 and up to 100000, Grande above 100000 and up to 500000,
  Metropole above 500000: each bin excludes its lower edge and includes its upper one.
  A population of 50000 is Medio, and a row generated from a population of 50000 with
  10000 elderly has \<^verbatim>\<open>percentual_idosos\<close> 20.
\<close>

theorem porte_total_exclusive:
  "0 < x \<Longrightarrow>
   (\<exists>!b. porte x = Some b) \<and>
   (porte x = Some Pequeno \<longleftrightarrow> x \<le> 20000) \<and>
   (porte x = Some Medio \<longleftrightarrow> 20000 < x \<and> x \<le> 100000) \<and>
   (porte x = Some Grande \<longleftrightarrow> 100000 < x \<and> x \<le> 500000) \<and>
   (porte x = Some Metropole \<longleftrightarrow> 500000 < x) \<and>
   porte 50000 = Some Medio \<and>
   percentual_idosos (linha_de i 50000 10000 pib idh_v reg den e1 e2 e3) = 20"
  by (simp add: porte_cases linha_de_def Let_def)

theorem porte_total_exclusive_witness:
  "(0::int) < 50000 \<and> porte 50000 = Some Medio \<and> porte 50000 \<noteq> Some Pequeno \<and>
   porte 50000 \<noteq> Some Grande \<and> porte 50000 \<noteq> Some Metropole \<and>
   percentual_idosos (exemplo 0 50000 10000 0 0 0) = 20"
  using porte_total_exclusive [of 50000 0 20000 "7 / 10" Sudeste 100 0 0 0]
  by (simp add: exemplo_def)

subsection \<open>C9: the bucket at each breakpoint\<close>

text \<open>
  C9: at a breakpoint the bucket is the one below it: 20000 is Pequeno, 100000 is Medio
  and 500000 is Grande, while the next integer is in the bucket above. The edge 0
  itself has no bucket.
\<close>

theorem porte_boundaries:
  "porte 20000 = Some Pequeno \<and> porte 20001 = Some Medio \<and>
   porte 100000 = Some Medio \<and> porte 100001 = Some Grande \<and>
   porte 500000 = Some Grande \<and> porte 500001 = Some Metropole \<and>
   porte 0 = None \<and> porte 1 = Some Pequeno"
  by (simp add: porte_def)

section \<open>Facts about the quartile cohorts\<close>

lemma alto_idosos_filter:
  "alto_idosos df = filter (\<lambda>r. ge_lim (percentual_idosos r) (limite_alto df)) df"
  by (simp add: alto_idosos_def boolean_index_map [symmetric] o_def)

lemma baixo_idosos_filter:
  "baixo_idosos df = filter (\<lambda>r. le_lim (percentual_idosos r) (limite_baixo df)) df"
  by (simp add: baixo_idosos_def boolean_index_map [symmetric] o_def)

text \<open>
  A quantile of a non-empty column, for \<open>q\<close> between 0 and 1, lies between two entries
  of the column: the interpolation is between two entries of the sorted column.
\<close>

lemma quantile_between:
  assumes ne: "xs \<noteq> []" and q0: "0 \<le> q" and q1: "q \<le> 1"
  shows "\<exists>v a b. quantile xs q = Val v \<and> a \<in> set xs \<and> b \<in> set xs \<and> a \<le> v \<and> v \<le> b"
proof -
  define n where "n = length xs"
  define srt where "srt = sort xs"
  define pos where "pos = real (n - 1) * q"
  define lo where "lo = nat \<lfloor>pos\<rfloor>"
  define hi where "hi = min (lo + 1) (n - 1)"
  define frac where "frac = pos - real lo"
  from ne have npos: "0 < n" by (simp add: n_def)
  have pos0: "0 \<le> pos" using q0 by (simp add: pos_def)
  have pos1: "pos \<le> real (n - 1)"
    using q0 q1 by (simp add: pos_def mult_left_le)
  have fl0: "0 \<le> \<lfloor>pos\<rfloor>" using pos0 by simp
  have "\<lfloor>pos\<rfloor> \<le> int (n - 1)" using pos1 by (simp add: floor_le_iff)
  with fl0 have lo_le: "lo \<le> n - 1" by (simp add: lo_def)
  have lo_real: "real lo = of_int \<lfloor>pos\<rfloor>" using fl0 by (simp add: lo_def)
  have frac0: "0 \<le> frac" by (simp add: frac_def lo_real)
  have frac1: "frac \<le> 1" unfolding frac_def lo_real by linarith
  have lohi: "lo \<le> hi" using lo_le by (simp add: hi_def)
  have hi_lt: "hi < n" using npos by (simp add: hi_def)
  have len: "length srt = n" by (simp add: srt_def n_def)
  have lo_lt: "lo < n" using lohi hi_lt by simp
  have mono: "srt ! lo \<le> srt ! hi"
    using sorted_nth_mono [of srt lo hi] lohi hi_lt len by (simp add: srt_def)
  define v where "v = srt ! lo + (srt ! hi - srt ! lo) * frac"
  have qv: "quantile xs q = Val v"
    using ne by (simp add: quantile_def Let_def v_def frac_def hi_def lo_def pos_def srt_def n_def)
  have d: "0 \<le> srt ! hi - srt ! lo" using mono by simp
  have lower: "srt ! lo \<le> v"
    using d frac0 by (simp add: v_def)
  have "(srt ! hi - srt ! lo) * frac \<le> (srt ! hi - srt ! lo) * 1"
    using d frac1 by (rule mult_left_mono [OF _ _, rotated]) 
  then have upper: "v \<le> srt ! hi" by (simp add: v_def)
  have a: "srt ! lo \<in> set xs" using lo_lt len nth_mem [of lo srt] by (simp add: srt_def)
  have b: "srt ! hi \<in> set xs" using hi_lt len nth_mem [of hi srt] by (simp add: srt_def)
  from qv a b lower upper show ?thesis by blast
qed

lemma limites_dentro:
  assumes "df \<noteq> []"
  shows "\<exists>la lb. limite_alto df = Val la \<and> limite_baixo df = Val lb \<and>
           (\<forall>r \<in> set df. (\<forall>t \<in> set df. percentual_idosos t \<le> percentual_idosos r) \<longrightarrow>
               la \<le> percentual_idosos r \<and> lb \<le> percentual_idosos r) \<and>
           (\<forall>r \<in> set df. (\<forall>t \<in> set df. percentual_idosos r \<le> percentual_idosos t) \<longrightarrow>
               percentual_idosos r \<le> la \<and> percentual_idosos r \<le> lb)"
proof -
  from assms have ne: "map percentual_idosos df \<noteq> []" by simp
  from quantile_between [OF ne, of "3 / 4"] obtain la a b
    where la: "limite_alto df = Val la" "a \<in> set (map percentual_idosos df)"
      "b \<in> set (map percentual_idosos df)" "a \<le> la" "la \<le> b"
    unfolding limite_alto_def by auto
  from quantile_between [OF ne, of "1 / 4"] obtain lb c d
    where lb: "limite_baixo df = Val lb" "c \<in> set (map percentual_idosos df)"
      "d \<in> set (map percentual_idosos df)" "c \<le> lb" "lb \<le> d"
    unfolding limite_baixo_def by auto
  show ?thesis
  proof (intro exI conjI ballI impI)
    show "limite_alto df = Val la" by (rule la(1))
    show "limite_baixo df = Val lb" by (rule lb(1))
  next
    fix r assume "r \<in> set df" and m: "\<forall>t \<in> set df. percentual_idosos t \<le> percentual_idosos r"
    from la(3) m have "b \<le> percentual_idosos r" by auto
    with la(5) show "la \<le> percentual_idosos r" by simp
  next
    fix r assume "r \<in> set df" and m: "\<forall>t \<in> set df. percentual_idosos t \<le> percentual_idosos r"
    from lb(3) m have "d \<le> percentual_idosos r" by auto
    with lb(5) show "lb \<le> percentual_idosos r" by simp
  next
    fix r assume "r \<in> set df" and m: "\<forall>t \<in> set df. percentual_idosos r \<le> percentual_idosos t"
    from la(2) m have "percentual_idosos r \<le> a" by auto
    with la(4) show "percentual_idosos r \<le> la" by simp
  next
    fix r assume "r \<in> set df" and m: "\<forall>t \<in> set df. percentual_idosos r \<le> percentual_idosos t"
    from lb(2) m have "percentual_idosos r \<le> c" by auto
    with lb(4) show "percentual_idosos r \<le> lb" by simp
  qed
qed

lemma tem_maximo:
  assumes "df \<noteq> []"
  shows "\<exists>r \<in> set df. \<forall>t \<in> set df. percentual_idosos t \<le> percentual_idosos r"
proof -
  let ?S = "percentual_idosos ` set df"
  have fin: "finite ?S" and ne: "?S \<noteq> {}" using assms by simp_all
  from Max_in [OF fin ne] obtain r where r: "r \<in> set df" "percentual_idosos r = Max ?S"
    by auto
  have "\<forall>t \<in> set df. percentual_idosos t \<le> percentual_idosos r"
  proof
    fix t assume "t \<in> set df"
    then have "percentual_idosos t \<in> ?S" by simp
    from Max_ge [OF fin this] show "percentual_idosos t \<le> percentual_idosos r"
      by (simp add: r(2))
  qed
  with r(1) show ?thesis by blast
qed

lemma tem_minimo:
  assumes "df \<noteq> []"
  shows "\<exists>r \<in> set df. \<forall>t \<in> set df. percentual_idosos r \<le> percentual_idosos t"
proof -
  let ?S = "percentual_idosos ` set df"
  have fin: "finite ?S" and ne: "?S \<noteq> {}" using assms by simp_all
  from Min_in [OF fin ne] obtain r where r: "r \<in> set df" "percentual_idosos r = Min ?S"
    by auto
  have "\<forall>t \<in> set df. percentual_idosos r \<le> percentual_idosos t"
  proof
    fix t assume "t \<in> set df"
    then have "percentual_idosos t \<in> ?S" by simp
    from Min_le [OF fin this] show "percentual_idosos r \<le> percentual_idosos t"
      by (simp add: r(2))
  qed
  with r(1) show ?thesis by blast
qed

text \<open>Concrete quantiles and cohorts.\<close>

lemma quantile_single: "quantile [x] q = Val x"
  by (simp add: quantile_def)

lemma quantile_pair_34: "quantile [20, 10] (3 / 4) = Val (35 / 2)"
  by (simp add: quantile_def Let_def)

lemma quantile_pair_14: "quantile [20, 10] (1 / 4) = Val (25 / 2)"
  by (simp add: quantile_def Let_def)

lemma alto_single: "alto_idosos [r] = [r]"
  by (simp add: alto_idosos_filter limite_alto_def quantile_single)

lemma baixo_single: "baixo_idosos [r] = [r]"
  by (simp add: baixo_idosos_filter limite_baixo_def quantile_single)

lemma alto_pair:
  "alto_idosos [exemplo 0 50000 10000 0 0 0, exemplo 1 50000 5000 (- 40) 0 0] = [exemplo 0 50000 10000 0 0 0]"
  by (simp add: alto_idosos_filter limite_alto_def pct_exemplo quantile_pair_34)

lemma baixo_pair:
  "baixo_idosos [exemplo 0 50000 10000 0 0 0, exemplo 1 50000 5000 (- 40) 0 0] = [exemplo 1 50000 5000 (- 40) 0 0]"
  by (simp add: baixo_idosos_filter limite_baixo_def pct_exemplo quantile_pair_14)

lemma truediv_zero: "\<not> is_finite (truediv a (Val 0))"
  by (cases a) simp_all

lemma razao_internacoes_pair:
  "razao_internacoes [exemplo 0 50000 10000 0 0 0, exemplo 1 50000 5000 (- 40) 0 0] = PInf"
  by (simp only: razao_internacoes_def alto_pair baixo_pair) (simp add: mean_def inter_exemplo)

subsection \<open>C7: the two cohorts and the ratio of their means\<close>

text \<open>
  C7 as stated fails: the cohorts are the rows at or above the 0.75 quantile and the
  rows at or below the 0.25 quantile, and the two quantiles can coincide. On a
  filtered set of one row both quantiles are that row's \<^verbatim>\<open>percentual_idosos\<close>, and
  the row is in both cohorts.
\<close>

theorem cohorts_overlap_counterexample:
  "alto_idosos [exemplo 0 50000 10000 0 0 0] = [exemplo 0 50000 10000 0 0 0] \<and>
   baixo_idosos [exemplo 0 50000 10000 0 0 0] = [exemplo 0 50000 10000 0 0 0] \<and>
   set (alto_idosos [exemplo 0 50000 10000 0 0 0]) \<inter>
     set (baixo_idosos [exemplo 0 50000 10000 0 0 0]) \<noteq> {}"
  by (simp add: alto_single baixo_single)

text \<open>
  C7, amended: the two cohorts are disjoint whenever the 0.25 quantile of
  \<^verbatim>\<open>percentual_idosos\<close> is strictly below the 0.75 quantile; and each ratio of cohort
  means (top over bottom) is not a finite number, NaN or an infinity, when the
  bottom-cohort mean is zero.
\<close>

theorem cohorts_disjoint_apart:
  "(limite_baixo df = Val lb \<and> limite_alto df = Val la \<and> lb < la \<longrightarrow>
      set (alto_idosos df) \<inter> set (baixo_idosos df) = {}) \<and>
   (mean (map internacoes_por_1000 (baixo_idosos df)) = Val 0 \<longrightarrow>
      \<not> is_finite (razao_internacoes df)) \<and>
   (mean (map gasto_internacao_per_capita (baixo_idosos df)) = Val 0 \<longrightarrow>
      \<not> is_finite (razao_gastos df))"
proof -
  have a: "limite_baixo df = Val lb \<and> limite_alto df = Val la \<and> lb < la \<longrightarrow>
      set (alto_idosos df) \<inter> set (baixo_idosos df) = {}"
    by (auto simp: alto_idosos_filter baixo_idosos_filter)
  have b: "mean (map internacoes_por_1000 (baixo_idosos df)) = Val 0 \<longrightarrow>
      \<not> is_finite (razao_internacoes df)"
    by (simp add: razao_internacoes_def truediv_zero)
  have c: "mean (map gasto_internacao_per_capita (baixo_idosos df)) = Val 0 \<longrightarrow>
      \<not> is_finite (razao_gastos df)"
    by (simp add: razao_gastos_def truediv_zero)
  from a b c show ?thesis by (intro conjI)
qed

theorem cohorts_disjoint_apart_witness:
  "limite_baixo [exemplo 0 50000 10000 0 0 0, exemplo 1 50000 5000 (- 40) 0 0] = Val (25 / 2) \<and>
   limite_alto [exemplo 0 50000 10000 0 0 0, exemplo 1 50000 5000 (- 40) 0 0] = Val (35 / 2) \<and>
   (25 / 2 :: real) < 35 / 2 \<and>
   set (alto_idosos [exemplo 0 50000 10000 0 0 0, exemplo 1 50000 5000 (- 40) 0 0]) \<inter>
     set (baixo_idosos [exemplo 0 50000 10000 0 0 0, exemplo 1 50000 5000 (- 40) 0 0]) = {} \<and>
   mean (map internacoes_por_1000
     (baixo_idosos [exemplo 0 50000 10000 0 0 0, exemplo 1 50000 5000 (- 40) 0 0])) = Val 0 \<and>
   \<not> is_finite (razao_internacoes [exemplo 0 50000 10000 0 0 0, exemplo 1 50000 5000 (- 40) 0 0]) \<and>
   mean (map gasto_internacao_per_capita
     (baixo_idosos [exemplo 0 50000 10000 0 0 0, exemplo 1 50000 5000 (- 40) 0 0])) = Val 0 \<and>
   \<not> is_finite (razao_gastos [exemplo 0 50000 10000 0 0 0, exemplo 1 50000 5000 (- 40) 0 0])"
proof -
  have lb: "limite_baixo [exemplo 0 50000 10000 0 0 0, exemplo 1 50000 5000 (- 40) 0 0] = Val (25 / 2)"
    by (simp add: limite_baixo_def pct_exemplo quantile_pair_14)
  have la: "limite_alto [exemplo 0 50000 10000 0 0 0, exemplo 1 50000 5000 (- 40) 0 0] = Val (35 / 2)"
    by (simp add: limite_alto_def pct_exemplo quantile_pair_34)
  have lt: "(25 / 2 :: real) < 35 / 2" by simp
  have m1: "mean (map internacoes_por_1000
     (baixo_idosos [exemplo 0 50000 10000 0 0 0, exemplo 1 50000 5000 (- 40) 0 0])) = Val 0"
    by (simp only: baixo_pair) (simp add: mean_def inter_exemplo)
  have m2: "mean (map gasto_internacao_per_capita
     (baixo_idosos [exemplo 0 50000 10000 0 0 0, exemplo 1 50000 5000 (- 40) 0 0])) = Val 0"
    by (simp only: baixo_pair) (simp add: mean_def gasto_exemplo)
  note t = cohorts_disjoint_apart [of "[exemplo 0 50000 10000 0 0 0, exemplo 1 50000 5000 (- 40) 0 0]"
      "25 / 2" "35 / 2"]
  have d: "set (alto_idosos [exemplo 0 50000 10000 0 0 0, exemplo 1 50000 5000 (- 40) 0 0]) \<inter>
     set (baixo_idosos [exemplo 0 50000 10000 0 0 0, exemplo 1 50000 5000 (- 40) 0 0]) = {}"
    using t lb la lt by blast
  have r1: "\<not> is_finite (razao_internacoes [exemplo 0 50000 10000 0 0 0, exemplo 1 50000 5000 (- 40) 0 0])"
    using t m1 by blast
  have r2: "\<not> is_finite (razao_gastos [exemplo 0 50000 10000 0 0 0, exemplo 1 50000 5000 (- 40) 0 0])"
    using t m2 by blast
  from lb la lt d m1 r1 m2 r2 show ?thesis by (intro conjI)
qed

subsection \<open>C10: both cohorts of a non-empty set are non-empty\<close>

text \<open>
  C10: on a non-empty filtered set both quantiles are numbers, the 0.75 quantile is at
  most the largest \<^verbatim>\<open>percentual_idosos\<close> and the 0.25 quantile at least the smallest;
  so every row with the largest value is in the top cohort, every row with the
  smallest value is in the bottom cohort, and neither cohort is empty.
\<close>

theorem cohorts_nonempty:
  assumes "df \<noteq> []"
  shows "alto_idosos df \<noteq> [] \<and> baixo_idosos df \<noteq> [] \<and>
         (\<forall>r \<in> set df. (\<forall>t \<in> set df. percentual_idosos t \<le> percentual_idosos r) \<longrightarrow>
              r \<in> set (alto_idosos df)) \<and>
         (\<forall>r \<in> set df. (\<forall>t \<in> set df. percentual_idosos r \<le> percentual_idosos t) \<longrightarrow>
              r \<in> set (baixo_idosos df)) \<and>
         (\<exists>la lb. limite_alto df = Val la \<and> limite_baixo df = Val lb \<and>
            (\<forall>r \<in> set df. (\<forall>t \<in> set df. percentual_idosos t \<le> percentual_idosos r) \<longrightarrow>
               la \<le> percentual_idosos r) \<and>
            (\<forall>r \<in> set df. (\<forall>t \<in> set df. percentual_idosos r \<le> percentual_idosos t) \<longrightarrow>
               percentual_idosos r \<le> lb))"
proof -
  from limites_dentro [OF assms] obtain la lb
    where la: "limite_alto df = Val la" and lb: "limite_baixo df = Val lb"
      and mx: "\<forall>r \<in> set df. (\<forall>t \<in> set df. percentual_idosos t \<le> percentual_idosos r) \<longrightarrow>
               la \<le> percentual_idosos r \<and> lb \<le> percentual_idosos r"
      and mn: "\<forall>r \<in> set df. (\<forall>t \<in> set df. percentual_idosos r \<le> percentual_idosos t) \<longrightarrow>
               percentual_idosos r \<le> la \<and> percentual_idosos r \<le> lb"
    by blast
  have top: "\<forall>r \<in> set df. (\<forall>t \<in> set df. percentual_idosos t \<le> percentual_idosos r) \<longrightarrow>
              r \<in> set (alto_idosos df)"
    using mx by (simp add: alto_idosos_filter la)
  have bot: "\<forall>r \<in> set df. (\<forall>t \<in> set df. percentual_idosos r \<le> percentual_idosos t) \<longrightarrow>
              r \<in> set (baixo_idosos df)"
    using mn by (simp add: baixo_idosos_filter lb)
  from tem_maximo [OF assms] top have a: "alto_idosos df \<noteq> []" by fastforce
  from tem_minimo [OF assms] bot have b: "baixo_idosos df \<noteq> []" by fastforce
  from a b top bot la lb mx mn show ?thesis by blast
qed

theorem cohorts_nonempty_witness:
  "[exemplo 0 50000 10000 0 0 0, exemplo 1 50000 5000 (- 40) 0 0] \<noteq> [] \<and>
   alto_idosos [exemplo 0 50000 10000 0 0 0, exemplo 1 50000 5000 (- 40) 0 0] \<noteq> [] \<and>
   baixo_idosos [exemplo 0 50000 10000 0 0 0, exemplo 1 50000 5000 (- 40) 0 0] \<noteq> [] \<and>
   exemplo 0 50000 10000 0 0 0 \<in>
     set (alto_idosos [exemplo 0 50000 10000 0 0 0, exemplo 1 50000 5000 (- 40) 0 0]) \<and>
   exemplo 1 50000 5000 (- 40) 0 0 \<in>
     set (baixo_idosos [exemplo 0 50000 10000 0 0 0, exemplo 1 50000 5000 (- 40) 0 0])"
proof -
  have ne: "[exemplo 0 50000 10000 0 0 0, exemplo 1 50000 5000 (- 40) 0 0] \<noteq> []" by simp
  note t = cohorts_nonempty [OF ne]
  have p0: "percentual_idosos (exemplo 0 50000 10000 0 0 0) = 20" by (simp add: pct_exemplo)
  have p1: "percentual_idosos (exemplo 1 50000 5000 (- 40) 0 0) = 10" by (simp add: pct_exemplo)
  from t have top: "\<forall>r \<in> set [exemplo 0 50000 10000 0 0 0, exemplo 1 50000 5000 (- 40) 0 0].
      (\<forall>t \<in> set [exemplo 0 50000 10000 0 0 0, exemplo 1 50000 5000 (- 40) 0 0].
         percentual_idosos t \<le> percentual_idosos r) \<longrightarrow>
      r \<in> set (alto_idosos [exemplo 0 50000 10000 0 0 0, exemplo 1 50000 5000 (- 40) 0 0])"
    by (rule conjunct1 [OF conjunct2 [OF conjunct2]])
  from t have bot: "\<forall>r \<in> set [exemplo 0 50000 10000 0 0 0, exemplo 1 50000 5000 (- 40) 0 0].
      (\<forall>t \<in> set [exemplo 0 50000 10000 0 0 0, exemplo 1 50000 5000 (- 40) 0 0].
         percentual_idosos r \<le> percentual_idosos t) \<longrightarrow>
      r \<in> set (baixo_idosos [exemplo 0 50000 10000 0 0 0, exemplo 1 50000 5000 (- 40) 0 0])"
    by (rule conjunct1 [OF conjunct2 [OF conjunct2 [OF conjunct2]]])
  from top p0 p1 have a: "exemplo 0 50000 10000 0 0 0 \<in>
     set (alto_idosos [exemplo 0 50000 10000 0 0 0, exemplo 1 50000 5000 (- 40) 0 0])"
    by simp
  from bot p0 p1 have b: "exemplo 1 50000 5000 (- 40) 0 0 \<in>
     set (baixo_idosos [exemplo 0 50000 10000 0 0 0, exemplo 1 50000 5000 (- 40) 0 0])"
    by simp
  from t have c: "alto_idosos [exemplo 0 50000 10000 0 0 0, exemplo 1 50000 5000 (- 40) 0 0] \<noteq> []"
    by (rule conjunct1)
  from t have d: "baixo_idosos [exemplo 0 50000 10000 0 0 0, exemplo 1 50000 5000 (- 40) 0 0] \<noteq> []"
    by (rule conjunct1 [OF conjunct2])
  from ne c d a b show ?thesis by (intro conjI)
qed

section \<open>Facts about undefined statistics\<close>

lemma corr_constant_left:
  assumes "\<forall>x \<in> set xs. x = c"
  shows "corr xs ys = NaN"
proof (cases "length xs < 2")
  case True
  then show ?thesis by (simp add: corr_def)
next
  case False
  define n where "n = length xs"
  from False have n: "0 < n" unfolding n_def by linarith
  from assms have xs: "xs = replicate n c"
    unfolding n_def by (simp add: replicate_length_same)
  have mx: "sum_list xs / real (length xs) = c"
    using n by (subst xs, subst xs) (simp add: sum_list_replicate)
  have "sum_list (map (\<lambda>x. (x - c) * (x - c)) xs) = 0"
    by (subst xs) (simp add: sum_list_replicate)
  with mx False show ?thesis by (auto simp: corr_def Let_def)
qed

lemma corr_constant_right:
  assumes "\<forall>y \<in> set ys. y = c" and "length ys = length xs"
  shows "corr xs ys = NaN"
proof (cases "length xs < 2")
  case True
  then show ?thesis by (simp add: corr_def)
next
  case False
  define n where "n = length ys"
  from False assms(2) have n: "0 < n" unfolding n_def by linarith
  from assms(1) have ys: "ys = replicate n c"
    unfolding n_def by (simp add: replicate_length_same)
  have my: "sum_list ys / real (length ys) = c"
    using n by (subst ys, subst ys) (simp add: sum_list_replicate)
  have "sum_list (map (\<lambda>y. (y - c) * (y - c)) ys) = 0"
    by (subst ys) (simp add: sum_list_replicate)
  with my False show ?thesis by (auto simp: corr_def Let_def)
qed

lemma achados_vazio:
  "principais_achados [] =
     \<lparr> correl_idosos_intern = NaN, frase_pnahp = Fraca_influencia,
       correl_pib_proced = NaN, frase_pnaes = Pouca_relacao_com_riqueza,
       correl_idosos_complexo = NaN, vezes_internacoes = NaN, vezes_gastos = NaN \<rparr>"
  by (simp add: principais_achados_def corr_def texto_pnahp_def texto_pnaes_def
        razao_internacoes_def razao_gastos_def alto_idosos_def baixo_idosos_def
        boolean_index_def mean_def)

subsection \<open>C5: what the script does with an undefined statistic\<close>

text \<open>
  C5 as stated fails: the script has no test for an undefined statistic. On a filtered
  set of one row the correlations are NaN; the findings box hands them to the same
  numeric format as any number and picks its sentences by comparing them with 0.5 and
  0.3, and every comparison with NaN is false. The undefined correlation is shown with
  the sentence for a weak influence, the one a correlation of 0.1 gets, not as not
  applicable. The same happens on the empty set. And on a set of two rows whose bottom
  cohort has a mean of zero hospitalizations, the ratio handed to the format is
  \<open>+inf\<close>, not NaN.
\<close>

theorem undefined_correlation_rendered_as_weak_counterexample:
  "correl_idosos_intern (principais_achados [exemplo 0 50000 10000 0 0 0]) = NaN \<and>
   frase_pnahp (principais_achados [exemplo 0 50000 10000 0 0 0]) = Fraca_influencia \<and>
   frase_pnahp (principais_achados [exemplo 0 50000 10000 0 0 0]) = texto_pnahp (Val (1 / 10)) \<and>
   correl_pib_proced (principais_achados [exemplo 0 50000 10000 0 0 0]) = NaN \<and>
   frase_pnaes (principais_achados [exemplo 0 50000 10000 0 0 0]) = Pouca_relacao_com_riqueza \<and>
   frase_pnaes (principais_achados [exemplo 0 50000 10000 0 0 0]) = texto_pnaes (Val (1 / 10)) \<and>
   correl_idosos_intern (principais_achados []) = NaN \<and>
   frase_pnahp (principais_achados []) = Fraca_influencia \<and>
   mean (map internacoes_por_1000
     (baixo_idosos [exemplo 0 50000 10000 0 0 0, exemplo 1 50000 5000 (- 40) 0 0])) = Val 0 \<and>
   vezes_internacoes
     (principais_achados [exemplo 0 50000 10000 0 0 0, exemplo 1 50000 5000 (- 40) 0 0]) = PInf"
proof -
  have a: "mean (map internacoes_por_1000
     (baixo_idosos [exemplo 0 50000 10000 0 0 0, exemplo 1 50000 5000 (- 40) 0 0])) = Val 0"
    by (simp only: baixo_pair) (simp add: mean_def inter_exemplo)
  have b: "vezes_internacoes
     (principais_achados [exemplo 0 50000 10000 0 0 0, exemplo 1 50000 5000 (- 40) 0 0]) = PInf"
    by (simp only: principais_achados_def Let_def achados.simps razao_internacoes_pair)
  from a b show ?thesis
    by (simp add: principais_achados_def corr_def texto_pnahp_def texto_pnaes_def)
qed

text \<open>
  C5, amended: the mean and the quantiles of an empty column are NaN; a correlation
  over fewer than 2 rows, or with a column of zero variance, is NaN; on the empty
  filtered set all three correlations and both ratios of the findings box are NaN; a
  ratio whose bottom-cohort mean is zero is NaN or an infinity. These values are the
  metric itself: the findings box shows the sentence \<^verbatim>\<open>Fraca influencia\<close> when the
  first correlation is NaN and \<^verbatim>\<open>Pouca relacao com riqueza\<close> when the second is.
\<close>

theorem undefined_metrics:
  "mean [] = NaN \<and>
   quantile [] q = NaN \<and>
   (length xs < 2 \<longrightarrow> corr xs ys = NaN) \<and>
   ((\<forall>x \<in> set xs. x = c) \<longrightarrow> corr xs ys = NaN) \<and>
   ((\<forall>y \<in> set ys. y = c) \<and> length ys = length xs \<longrightarrow> corr xs ys = NaN) \<and>
   principais_achados [] =
     \<lparr> correl_idosos_intern = NaN, frase_pnahp = Fraca_influencia,
       correl_pib_proced = NaN, frase_pnaes = Pouca_relacao_com_riqueza,
       correl_idosos_complexo = NaN, vezes_internacoes = NaN, vezes_gastos = NaN \<rparr> \<and>
   (correl_idosos_intern (principais_achados df) = NaN \<longrightarrow>
      frase_pnahp (principais_achados df) = Fraca_influencia) \<and>
   (correl_pib_proced (principais_achados df) = NaN \<longrightarrow>
      frase_pnaes (principais_achados df) = Pouca_relacao_com_riqueza) \<and>
   (mean (map internacoes_por_1000 (baixo_idosos df')) = Val 0 \<longrightarrow>
      \<not> is_finite (vezes_internacoes (principais_achados df'))) \<and>
   (mean (map gasto_internacao_per_capita (baixo_idosos df')) = Val 0 \<longrightarrow>
      \<not> is_finite (vezes_gastos (principais_achados df')))"
proof -
  have a: "mean [] = NaN" by (simp add: mean_def)
  have b: "quantile [] q = NaN" by (simp add: quantile_def)
  have c: "length xs < 2 \<longrightarrow> corr xs ys = NaN" by (simp add: corr_def)
  have d: "(\<forall>x \<in> set xs. x = c) \<longrightarrow> corr xs ys = NaN"
    using corr_constant_left by blast
  have e: "(\<forall>y \<in> set ys. y = c) \<and> length ys = length xs \<longrightarrow> corr xs ys = NaN"
    using corr_constant_right by blast
  have f: "correl_idosos_intern (principais_achados df) = NaN \<longrightarrow>
      frase_pnahp (principais_achados df) = Fraca_influencia"
    by (simp add: principais_achados_def Let_def texto_pnahp_def)
  have g: "correl_pib_proced (principais_achados df) = NaN \<longrightarrow>
      frase_pnaes (principais_achados df) = Pouca_relacao_com_riqueza"
    by (simp add: principais_achados_def Let_def texto_pnaes_def)
  have h: "mean (map internacoes_por_1000 (baixo_idosos df')) = Val 0 \<longrightarrow>
      \<not> is_finite (vezes_internacoes (principais_achados df'))"
    by (simp add: principais_achados_def Let_def razao_internacoes_def truediv_zero)
  have i: "mean (map gasto_internacao_per_capita (baixo_idosos df')) = Val 0 \<longrightarrow>
      \<not> is_finite (vezes_gastos (principais_achados df'))"
    by (simp add: principais_achados_def Let_def razao_gastos_def truediv_zero)
  from a b c d e achados_vazio f g h i show ?thesis by (intro conjI)
qed

theorem undefined_metrics_witness:
  "length [1::real] < 2 \<and> corr [1] [2] = NaN \<and>
   corr [3, 3] [1, 2] = NaN \<and>
   length [5, 5 :: real] = length [1, 2 :: real] \<and> corr [1, 2] [5, 5] = NaN \<and>
   correl_idosos_intern (principais_achados [exemplo 0 50000 10000 0 0 0]) = NaN \<and>
   frase_pnahp (principais_achados [exemplo 0 50000 10000 0 0 0]) = Fraca_influencia \<and>
   correl_pib_proced (principais_achados [exemplo 0 50000 10000 0 0 0]) = NaN \<and>
   frase_pnaes (principais_achados [exemplo 0 50000 10000 0 0 0]) = Pouca_relacao_com_riqueza \<and>
   mean (map internacoes_por_1000
     (baixo_idosos [exemplo 0 50000 10000 0 0 0, exemplo 1 50000 5000 (- 40) 0 0])) = Val 0 \<and>
   \<not> is_finite (vezes_internacoes
     (principais_achados [exemplo 0 50000 10000 0 0 0, exemplo 1 50000 5000 (- 40) 0 0])) \<and>
   mean (map gasto_internacao_per_capita
     (baixo_idosos [exemplo 0 50000 10000 0 0 0, exemplo 1 50000 5000 (- 40) 0 0])) = Val 0 \<and>
   \<not> is_finite (vezes_gastos
     (principais_achados [exemplo 0 50000 10000 0 0 0, exemplo 1 50000 5000 (- 40) 0 0]))"
proof -
  have m1: "mean (map internacoes_por_1000
     (baixo_idosos [exemplo 0 50000 10000 0 0 0, exemplo 1 50000 5000 (- 40) 0 0])) = Val 0"
    by (simp only: baixo_pair) (simp add: mean_def inter_exemplo)
  have m2: "mean (map gasto_internacao_per_capita
     (baixo_idosos [exemplo 0 50000 10000 0 0 0, exemplo 1 50000 5000 (- 40) 0 0])) = Val 0"
    by (simp only: baixo_pair) (simp add: mean_def gasto_exemplo)
  have c1: "correl_idosos_intern (principais_achados [exemplo 0 50000 10000 0 0 0]) = NaN"
    by (simp add: principais_achados_def corr_def)
  have c2: "correl_pib_proced (principais_achados [exemplo 0 50000 10000 0 0 0]) = NaN"
    by (simp add: principais_achados_def corr_def)
  note t1 = undefined_metrics [where xs = "[1]" and ys = "[2]"
      and df = "[exemplo 0 50000 10000 0 0 0]"
      and df' = "[exemplo 0 50000 10000 0 0 0, exemplo 1 50000 5000 (- 40) 0 0]"]
  note t2 = undefined_metrics [where xs = "[3, 3]" and ys = "[1, 2]" and c = 3]
  note t3 = undefined_metrics [where xs = "[1, 2]" and ys = "[5, 5]" and c = 5]
  have k1: "corr [1] [2] = NaN" using t1 by simp
  have k2: "corr [3, 3] [1, 2] = NaN" using t2 by simp
  have k3: "corr [1, 2] [5, 5] = NaN" using t3 by simp
  have k4: "frase_pnahp (principais_achados [exemplo 0 50000 10000 0 0 0]) = Fraca_influencia"
    using t1 c1 by blast
  have k5: "frase_pnaes (principais_achados [exemplo 0 50000 10000 0 0 0]) = Pouca_relacao_com_riqueza"
    using t1 c2 by blast
  have k6: "\<not> is_finite (vezes_internacoes
     (principais_achados [exemplo 0 50000 10000 0 0 0, exemplo 1 50000 5000 (- 40) 0 0]))"
    using t1 m1 by blast
  have k7: "\<not> is_finite (vezes_gastos
     (principais_achados [exemplo 0 50000 10000 0 0 0, exemplo 1 50000 5000 (- 40) 0 0]))"
    using t1 m2 by blast
  have l1: "length [1::real] < 2" by simp
  have l2: "length [5, 5 :: real] = length [1, 2 :: real]" by simp
  from l1 k1 k2 l2 k3 c1 k4 c2 k5 m1 k6 m2 k7 show ?thesis by (intro conjI)
qed


end
